theory Spec2Isabelle
  imports Main "HOL-Library.AList" "HOL-Library.Word" "HOL-Library.Signed_Division"
begin

section \<open>Common conventions\<close>

text \<open>
  Go's \<open>uint\<close> identifiers are never used in arithmetic, so they are natural numbers.
  A \<open>time.Time\<close> is a natural number (a clock reading); the zero \<open>time.Time{}\<close> is 0.
  An \<open>error\<close> built by \<open>errors.New(msg)\<close> is its message, and a function returning
  \<open>(T, error)\<close> returns \<open>string + T\<close> with \<open>Inl msg\<close> for the error.
  A Go \<open>map\<close> and a Redis key space are association lists with one entry per key,
  updated with \<open>AList.update\<close> and read with \<open>map_of\<close>; ranging over them visits the
  entries in list order, which is one of the orders Go and Redis may choose.
\<close>

type_synonym time = nat

section \<open>The CLI todo store (todo/db/todo.go)\<close>

record ToDoItem =
  Id :: int
  Title :: string
  IsDone :: bool

type_synonym DbMap = "(int \<times> ToDoItem) list"

text \<open>
  The \<open>ToDo\<close> struct, together with the one file it names: \<open>dbFile\<close> is the JSON array
  stored on disk, already decoded, and \<open>None\<close> when the file cannot be read or does not
  hold a JSON array of items.
\<close>

record ToDo =
  toDoMap :: DbMap
  dbFile :: "ToDoItem list option"

text \<open>\<open>New\<close> on a file that does not exist yet: \<open>initDB\<close> writes \<open>[]\<close>.\<close>

definition New :: ToDo where
  "New = \<lparr>toDoMap = [], dbFile = Some []\<rparr>"

text \<open>
  \<open>New\<close> on the file another \<open>ToDo\<close> has left, as each run of the command-line tool
  does: a fresh map, the file untouched.
\<close>

definition Reopen :: "ToDo \<Rightarrow> ToDo" where
  "Reopen t = \<lparr>toDoMap = [], dbFile = dbFile t\<rparr>"

text \<open>\<open>loadDB\<close> adds every item of the file to the map it already holds.\<close>

definition loadDB :: "ToDo \<Rightarrow> string + ToDo" where
  "loadDB t =
     (case dbFile t of
        None \<Rightarrow> Inl ''read or unmarshal error''
      | Some toDoList \<Rightarrow>
          Inr (t\<lparr>toDoMap := fold (\<lambda>item m. AList.update (Id item) item m) toDoList (toDoMap t)\<rparr>))"

definition saveDB :: "ToDo \<Rightarrow> string + ToDo" where
  "saveDB t = Inr (t\<lparr>dbFile := Some (map snd (toDoMap t))\<rparr>)"

definition AddItem :: "ToDo \<Rightarrow> ToDoItem \<Rightarrow> (string + unit) \<times> ToDo" where
  "AddItem t item =
     (case loadDB t of
        Inl err \<Rightarrow> (Inl err, t)
      | Inr t1 \<Rightarrow>
          (case map_of (toDoMap t1) (Id item) of
             Some _ \<Rightarrow> (Inl ''item already exists in the database'', t1)
           | None \<Rightarrow>
               (let t2 = t1\<lparr>toDoMap := AList.update (Id item) item (toDoMap t1)\<rparr>
                in case saveDB t2 of
                     Inl err \<Rightarrow> (Inl err, t2)
                   | Inr t3 \<Rightarrow> (Inr (), t3))))"

definition DeleteItem :: "ToDo \<Rightarrow> int \<Rightarrow> (string + unit) \<times> ToDo" where
  "DeleteItem t itemId =
     (case loadDB t of
        Inl err \<Rightarrow> (Inl err, t)
      | Inr t1 \<Rightarrow>
          (case map_of (toDoMap t1) itemId of
             None \<Rightarrow> (Inl ''item does not exist in the database'', t1)
           | Some _ \<Rightarrow>
               (let t2 = t1\<lparr>toDoMap := AList.delete itemId (toDoMap t1)\<rparr>
                in case saveDB t2 of
                     Inl err \<Rightarrow> (Inl err, t2)
                   | Inr t3 \<Rightarrow> (Inr (), t3))))"

definition UpdateItem :: "ToDo \<Rightarrow> ToDoItem \<Rightarrow> (string + unit) \<times> ToDo" where
  "UpdateItem t item =
     (case loadDB t of
        Inl err \<Rightarrow> (Inl err, t)
      | Inr t1 \<Rightarrow>
          (case map_of (toDoMap t1) (Id item) of
             None \<Rightarrow> (Inl ''item does not exist in the database'', t1)
           | Some _ \<Rightarrow>
               (let t2 = t1\<lparr>toDoMap := AList.update (Id item) item (toDoMap t1)\<rparr>
                in case saveDB t2 of
                     Inl err \<Rightarrow> (Inl err, t2)
                   | Inr t3 \<Rightarrow> (Inr (), t3))))"

definition GetItem :: "ToDo \<Rightarrow> int \<Rightarrow> (string + ToDoItem) \<times> ToDo" where
  "GetItem t itemId =
     (case loadDB t of
        Inl err \<Rightarrow> (Inl err, t)
      | Inr t1 \<Rightarrow>
          (case map_of (toDoMap t1) itemId of
             None \<Rightarrow> (Inl ''item does not exist in the database'', t1)
           | Some item \<Rightarrow> (Inr item, t1)))"

definition GetAllItems :: "ToDo \<Rightarrow> (string + ToDoItem list) \<times> ToDo" where
  "GetAllItems t =
     (case loadDB t of
        Inl err \<Rightarrow> (Inl err, t)
      | Inr t1 \<Rightarrow> (Inr (map snd (toDoMap t1)), t1))"

definition ChangeItemDoneStatus :: "ToDo \<Rightarrow> int \<Rightarrow> bool \<Rightarrow> (string + unit) \<times> ToDo" where
  "ChangeItemDoneStatus t itemId v =
     (case GetItem t itemId of
        (Inl err, t1) \<Rightarrow> (Inl err, t1)
      | (Inr item, t1) \<Rightarrow> UpdateItem t1 (item\<lparr>IsDone := v\<rparr>))"

section \<open>The in-memory voter store (voter-api/voter/voter.go)\<close>

record voterPoll =
  PollID :: nat
  VoteDate :: time

record Voter =
  VoterID :: nat
  FirstName :: string
  LastName :: string
  VoteHistory :: "voterPoll list"

text \<open>The \<open>Voters\<close> map of a \<open>VoterList\<close>.\<close>

type_synonym VoterList = "(nat \<times> Voter) list"


definition NewVoter :: "nat \<Rightarrow> string \<Rightarrow> string \<Rightarrow> Voter" where
  "NewVoter voterId firstName lastName =
     \<lparr>VoterID = voterId, FirstName = firstName, LastName = lastName, VoteHistory = []\<rparr>"

text \<open>The zero values \<open>Voter{}\<close> and \<open>voterPoll{}\<close>.\<close>

definition zeroVoter :: Voter where
  "zeroVoter = \<lparr>VoterID = 0, FirstName = [], LastName = [], VoteHistory = []\<rparr>"

definition zeroVoterPoll :: voterPoll where
  "zeroVoterPoll = \<lparr>PollID = 0, VoteDate = 0\<rparr>"

definition VoterList_GetAllVoters :: "VoterList \<Rightarrow> Voter list" where
  "VoterList_GetAllVoters vl = map snd vl"

definition VoterList_GetVoter :: "VoterList \<Rightarrow> nat \<Rightarrow> string + Voter" where
  "VoterList_GetVoter vl voterID =
     (case map_of vl voterID of
        None \<Rightarrow> Inl ''voter does not exist''
      | Some voter \<Rightarrow> Inr voter)"


definition VoterList_UpdateVoter :: "VoterList \<Rightarrow> Voter \<Rightarrow> (string + unit) \<times> VoterList" where
  "VoterList_UpdateVoter vl voter =
     (case map_of vl (VoterID voter) of
        None \<Rightarrow> (Inl ''voter does not exist'', vl)
      | Some existingVoter \<Rightarrow>
          (Inr (),
           AList.update (VoterID voter)
             (existingVoter\<lparr>FirstName := FirstName voter, LastName := LastName voter\<rparr>) vl))"




definition VoterList_GetVoterPoll :: "VoterList \<Rightarrow> nat \<Rightarrow> nat \<Rightarrow> string + voterPoll" where
  "VoterList_GetVoterPoll vl voterID pollID =
     (case map_of vl voterID of
        None \<Rightarrow> Inl ''voter does not exist''
      | Some voter \<Rightarrow>
          (case find (\<lambda>poll. PollID poll = pollID) (VoteHistory voter) of
             Some poll \<Rightarrow> Inr poll
           | None \<Rightarrow> Inl ''voter poll not found''))"


text \<open>
  The loop of \<open>UpdateVoterPoll\<close>: it overwrites the first history entry whose \<open>PollID\<close> is
  \<open>pollID\<close> and stops; \<open>updatedVoterPoll\<close> stays the zero value when there is none.
  The result is \<open>updatedVoterPoll\<close> and the history after the loop.
\<close>

fun updateLoop :: "nat \<Rightarrow> time \<Rightarrow> voterPoll list \<Rightarrow> voterPoll \<times> voterPoll list" where
  "updateLoop pollID voteDate [] = (zeroVoterPoll, [])"
| "updateLoop pollID voteDate (poll # rest) =
     (if PollID poll = pollID
      then (\<lparr>PollID = pollID, VoteDate = voteDate\<rparr>, \<lparr>PollID = pollID, VoteDate = voteDate\<rparr> # rest)
      else (case updateLoop pollID voteDate rest of
              (updatedVoterPoll, rest') \<Rightarrow> (updatedVoterPoll, poll # rest')))"

text \<open>
  In the in-memory store the copy \<open>voter\<close> taken out of the map shares the backing array of
  its \<open>VoteHistory\<close> slice with the stored value, so the loop's write
  \<open>voter.VoteHistory[i] = updatedVoterPoll\<close> is already visible in the stored voter
  (\<open>vl1\<close> below) before the function decides whether it reports an error.
\<close>

definition VoterList_UpdateVoterPoll ::
  "VoterList \<Rightarrow> nat \<Rightarrow> nat \<Rightarrow> time \<Rightarrow> (string + voterPoll) \<times> VoterList" where
  "VoterList_UpdateVoterPoll vl voterID pollID now =
     (case map_of vl voterID of
        None \<Rightarrow> (Inl ''voter does not exist'', vl)
      | Some voter \<Rightarrow>
          (case updateLoop pollID now (VoteHistory voter) of
             (updatedVoterPoll, history') \<Rightarrow>
               (let voter' = voter\<lparr>VoteHistory := history'\<rparr>;
                    vl1 = AList.update voterID voter' vl
                in if PollID updatedVoterPoll = 0
                   then (Inl ''voter poll not found'', vl1)
                   else (Inr updatedVoterPoll, AList.update (VoterID voter') voter' vl1))))"


section \<open>The Redis client, as a key-value store\<close>

text \<open>
  The services of \<open>voting-application\<close> keep their entities as JSON documents in Redis,
  under the key \<open>prefix ^ decimal id\<close>; each service has its own prefix, so a key is
  modelled by the id. The client is an opaque, reliable key-value store: \<open>JSONGet\<close>
  fails exactly on an absent key, and \<open>Keys\<close>, \<open>JSONSet\<close>, \<open>JSONDel\<close> and \<open>Del\<close>
  succeed. Their callers keep the error branches of the source.
\<close>

type_synonym 'a redis = "(nat \<times> 'a) list"

definition JSONGet :: "'a redis \<Rightarrow> nat \<Rightarrow> string + 'a" where
  "JSONGet db key = (case map_of db key of None \<Rightarrow> Inl ''redis: nil'' | Some item \<Rightarrow> Inr item)"

definition JSONSet :: "'a redis \<Rightarrow> nat \<Rightarrow> 'a \<Rightarrow> string + 'a redis" where
  "JSONSet db key item = Inr (AList.update key item db)"

definition JSONDel :: "'a redis \<Rightarrow> nat \<Rightarrow> string + 'a redis" where
  "JSONDel db key = Inr (AList.delete key db)"

definition Del :: "'a redis \<Rightarrow> nat \<Rightarrow> string + 'a redis" where
  "Del db key = Inr (AList.delete key db)"

definition Keys :: "'a redis \<Rightarrow> string + nat list" where
  "Keys db = Inr (map fst db)"

text \<open>
  The loop shared by \<open>GetAllVoters\<close>, \<open>GetAllPolls\<close> and \<open>GetAllVotes\<close>: it reads the
  document of every key and stops at the first read that fails, returning the error.
\<close>

fun getAllLoop :: "'a redis \<Rightarrow> nat list \<Rightarrow> 'a list \<Rightarrow> string + 'a list" where
  "getAllLoop db [] items = Inr items"
| "getAllLoop db (key # keys) items =
     (case JSONGet db key of
        Inl err \<Rightarrow> Inl err
      | Inr item \<Rightarrow> getAllLoop db keys (items @ [item]))"

text \<open>The loop of the \<open>DeleteAll\<close> operations: one \<open>Del\<close> per key.\<close>

fun delAllLoop :: "'a redis \<Rightarrow> nat list \<Rightarrow> string + 'a redis" where
  "delAllLoop db [] = Inr db"
| "delAllLoop db (key # keys) =
     (case Del db key of
        Inl err \<Rightarrow> Inl err
      | Inr db' \<Rightarrow> delAllLoop db' keys)"

section \<open>The Redis-backed voter store (voting-application/voter-api/voter/voter.go)\<close>

type_synonym VoterCache = "Voter redis"

definition VoterCache_GetAllVoters :: "VoterCache \<Rightarrow> string + Voter list" where
  "VoterCache_GetAllVoters vc =
     (case Keys vc of
        Inl err \<Rightarrow> Inl err
      | Inr keys \<Rightarrow> getAllLoop vc keys [])"

definition VoterCache_GetVoter :: "VoterCache \<Rightarrow> nat \<Rightarrow> string + Voter" where
  "VoterCache_GetVoter vc voterID =
     (case JSONGet vc voterID of
        Inl _ \<Rightarrow> Inl ''voter does not exist''
      | Inr voter \<Rightarrow> Inr voter)"

definition VoterCache_AddVoter :: "VoterCache \<Rightarrow> Voter \<Rightarrow> (string + unit) \<times> VoterCache" where
  "VoterCache_AddVoter vc voter =
     (case VoterCache_GetVoter vc (VoterID voter) of
        Inr _ \<Rightarrow> (Inl ''voter already exists'', vc)
      | Inl _ \<Rightarrow>
          (case JSONSet vc (VoterID voter) voter of
             Inl setErr \<Rightarrow> (Inl setErr, vc)
           | Inr vc' \<Rightarrow> (Inr (), vc')))"

definition VoterCache_UpdateVoter :: "VoterCache \<Rightarrow> Voter \<Rightarrow> (string + Voter) \<times> VoterCache" where
  "VoterCache_UpdateVoter vc voter =
     (case VoterCache_GetVoter vc (VoterID voter) of
        Inl _ \<Rightarrow> (Inl ''voter does not exist'', vc)
      | Inr existingVoter \<Rightarrow>
          (let existingVoter' =
                 existingVoter\<lparr>FirstName := FirstName voter, LastName := LastName voter\<rparr>
           in case JSONSet vc (VoterID voter) existingVoter' of
                Inl setErr \<Rightarrow> (Inl setErr, vc)
              | Inr vc' \<Rightarrow> (Inr existingVoter', vc')))"

definition VoterCache_DeleteAllVoters :: "VoterCache \<Rightarrow> (string + unit) \<times> VoterCache" where
  "VoterCache_DeleteAllVoters vc =
     (case Keys vc of
        Inl err \<Rightarrow> (Inl err, vc)
      | Inr keys \<Rightarrow>
          (case delAllLoop vc keys of
             Inl deleteErr \<Rightarrow> (Inl deleteErr, vc)
           | Inr vc' \<Rightarrow> (Inr (), vc')))"

definition VoterCache_DeleteVoter :: "VoterCache \<Rightarrow> nat \<Rightarrow> (string + unit) \<times> VoterCache" where
  "VoterCache_DeleteVoter vc voterID =
     (case VoterCache_GetVoter vc voterID of
        Inl _ \<Rightarrow> (Inl ''voter does not exist'', vc)
      | Inr _ \<Rightarrow>
          (case JSONDel vc voterID of
             Inl deleteErr \<Rightarrow> (Inl deleteErr, vc)
           | Inr vc' \<Rightarrow> (Inr (), vc')))"

definition VoterCache_GetVoterHistory :: "VoterCache \<Rightarrow> nat \<Rightarrow> string + voterPoll list" where
  "VoterCache_GetVoterHistory vc voterID =
     (case VoterCache_GetVoter vc voterID of
        Inl _ \<Rightarrow> Inl ''voter does not exist''
      | Inr voter \<Rightarrow> Inr (VoteHistory voter))"

definition VoterCache_GetVoterPoll :: "VoterCache \<Rightarrow> nat \<Rightarrow> nat \<Rightarrow> string + voterPoll" where
  "VoterCache_GetVoterPoll vc voterID pollID =
     (case VoterCache_GetVoter vc voterID of
        Inl _ \<Rightarrow> Inl ''voter does not exist''
      | Inr voter \<Rightarrow>
          (case find (\<lambda>poll. PollID poll = pollID) (VoteHistory voter) of
             Some poll \<Rightarrow> Inr poll
           | None \<Rightarrow> Inl ''voter poll not found''))"

definition VoterCache_AddVoterPoll ::
  "VoterCache \<Rightarrow> nat \<Rightarrow> nat \<Rightarrow> time \<Rightarrow> (string + voterPoll) \<times> VoterCache" where
  "VoterCache_AddVoterPoll vc voterID pollID voteDate =
     (case VoterCache_GetVoter vc voterID of
        Inl _ \<Rightarrow> (Inl ''voter does not exist'', vc)
      | Inr voter \<Rightarrow>
          (case find (\<lambda>poll. PollID poll = pollID) (VoteHistory voter) of
             Some _ \<Rightarrow> (Inl ''voter has already voted in this poll'', vc)
           | None \<Rightarrow>
               (let newVoterPoll = \<lparr>PollID = pollID, VoteDate = voteDate\<rparr>;
                    voter' = voter\<lparr>VoteHistory := VoteHistory voter @ [newVoterPoll]\<rparr>
                in case JSONSet vc (VoterID voter') voter' of
                     Inl setErr \<Rightarrow> (Inl setErr, vc)
                   | Inr vc' \<Rightarrow> (Inr newVoterPoll, vc'))))"

text \<open>
  Here \<open>voter\<close> is decoded afresh from Redis, so the loop's write stays in the local copy
  until \<open>JSONSet\<close> stores it.
\<close>

definition VoterCache_UpdateVoterPoll ::
  "VoterCache \<Rightarrow> nat \<Rightarrow> nat \<Rightarrow> time \<Rightarrow> (string + voterPoll) \<times> VoterCache" where
  "VoterCache_UpdateVoterPoll vc voterID pollID voteDate =
     (case VoterCache_GetVoter vc voterID of
        Inl _ \<Rightarrow> (Inl ''voter does not exist'', vc)
      | Inr voter \<Rightarrow>
          (case updateLoop pollID voteDate (VoteHistory voter) of
             (updatedVoterPoll, history') \<Rightarrow>
               (let voter' = voter\<lparr>VoteHistory := history'\<rparr>
                in if PollID updatedVoterPoll = 0
                   then (Inl ''voter poll not found'', vc)
                   else (case JSONSet vc (VoterID voter') voter' of
                           Inl setErr \<Rightarrow> (Inl setErr, vc)
                         | Inr vc' \<Rightarrow> (Inr updatedVoterPoll, vc')))))"

definition VoterCache_DeleteVoterPoll ::
  "VoterCache \<Rightarrow> nat \<Rightarrow> nat \<Rightarrow> (string + unit) \<times> VoterCache" where
  "VoterCache_DeleteVoterPoll vc voterID pollID =
     (case VoterCache_GetVoter vc voterID of
        Inl _ \<Rightarrow> (Inl ''voter does not exist'', vc)
      | Inr voter \<Rightarrow>
          (let updatedVoteHistory = filter (\<lambda>poll. PollID poll \<noteq> pollID) (VoteHistory voter)
           in if length updatedVoteHistory = length (VoteHistory voter)
              then (Inl ''voter poll not found'', vc)
              else (let voter' = voter\<lparr>VoteHistory := updatedVoteHistory\<rparr>
                    in case JSONSet vc (VoterID voter') voter' of
                         Inl setErr \<Rightarrow> (Inl setErr, vc)
                       | Inr vc' \<Rightarrow> (Inr (), vc'))))"

section \<open>Polls and votes (poll-api/poll/poll.go, votes-api/votes/votes.go)\<close>

record pollOption =
  PollOptionID :: nat
  PollOptionText :: string

text \<open>The Go field \<open>Poll.PollID\<close> is \<open>Poll_PollID\<close> here, since \<open>voterPoll\<close> has a \<open>PollID\<close> too.\<close>

record Poll =
  Poll_PollID :: nat
  PollTitle :: string
  PollQuestion :: string
  PollOptions :: "pollOption list"

type_synonym PollCache = "Poll redis"

definition PollCache_GetAllPolls :: "PollCache \<Rightarrow> string + Poll list" where
  "PollCache_GetAllPolls pc =
     (case Keys pc of
        Inl err \<Rightarrow> Inl err
      | Inr keys \<Rightarrow> getAllLoop pc keys [])"

text \<open>The Go fields \<open>Vote.VoterID\<close> and \<open>Vote.PollID\<close> are \<open>Vote_VoterID\<close> and \<open>Vote_PollID\<close>.\<close>

record Vote =
  VoteID :: nat
  Vote_VoterID :: nat
  Vote_PollID :: nat
  VoteValue :: nat

type_synonym VotesCache = "Vote redis"

definition VotesCache_GetAllVotes :: "VotesCache \<Rightarrow> string + Vote list" where
  "VotesCache_GetAllVotes vc =
     (case Keys vc of
        Inl err \<Rightarrow> Inl err
      | Inr keys \<Rightarrow> getAllLoop vc keys [])"

definition VotesCache_GetVote :: "VotesCache \<Rightarrow> nat \<Rightarrow> string + Vote" where
  "VotesCache_GetVote vc voteID =
     (case JSONGet vc voteID of
        Inl _ \<Rightarrow> Inl ''vote does not exist''
      | Inr vote \<Rightarrow> Inr vote)"

definition VotesCache_AddVote :: "VotesCache \<Rightarrow> Vote \<Rightarrow> (string + unit) \<times> VotesCache" where
  "VotesCache_AddVote vc vote =
     (case VotesCache_GetVote vc (VoteID vote) of
        Inr _ \<Rightarrow> (Inl ''vote already exists'', vc)
      | Inl _ \<Rightarrow>
          (case JSONSet vc (VoteID vote) vote of
             Inl setErr \<Rightarrow> (Inl setErr, vc)
           | Inr vc' \<Rightarrow> (Inr (), vc')))"

definition VotesCache_DeleteVote :: "VotesCache \<Rightarrow> nat \<Rightarrow> (string + unit) \<times> VotesCache" where
  "VotesCache_DeleteVote vc voteID =
     (case VotesCache_GetVote vc voteID of
        Inl _ \<Rightarrow> (Inl ''vote does not exist'', vc)
      | Inr _ \<Rightarrow>
          (case JSONDel vc voteID of
             Inl deleteErr \<Rightarrow> (Inl deleteErr, vc)
           | Inr vc' \<Rightarrow> (Inr (), vc')))"

section \<open>The HTTP boundary\<close>

abbreviation StatusOK :: nat where "StatusOK \<equiv> 200"
abbreviation StatusBadRequest :: nat where "StatusBadRequest \<equiv> 400"
abbreviation StatusNotFound :: nat where "StatusNotFound \<equiv> 404"
abbreviation StatusConflict :: nat where "StatusConflict \<equiv> 409"
abbreviation StatusInternalServerError :: nat where "StatusInternalServerError \<equiv> 500"

text \<open>
  The health report. The Go handler prints the durations with \<open>String()\<close>; the report
  carries the \<open>time.Duration\<close> values themselves, signed 64-bit counts of nanoseconds.
\<close>

record health =
  healthStatus :: string
  uptime :: nat
  totalAPICalls :: "64 word"
  totalAPICallsError :: "64 word"
  healthBootTime :: time
  healthTotalRequestTime :: "64 word"
  averageRequestTime :: "64 word"

text \<open>What a handler writes: \<open>AbortWithStatus\<close> sends no body, \<open>c.JSON\<close> sends a value.\<close>

datatype json =
    NoBody
  | JMessage string
  | JError string
  | JVoter Voter
  | JVoters "Voter list"
  | JVoterPoll voterPoll
  | JVoterHistory "voterPoll list"
  | JPolls "Poll list"
  | JVote Vote
  | JVotes "Vote list"
  | JHealth health

record response =
  status :: nat
  body :: json

definition AbortWithStatus :: "nat \<Rightarrow> response" where
  "AbortWithStatus code = \<lparr>status = code, body = NoBody\<rparr>"

definition JSON :: "nat \<Rightarrow> json \<Rightarrow> response" where
  "JSON code obj = \<lparr>status = code, body = obj\<rparr>"

text \<open>
  \<open>strconv.ParseUint(s, 10, 32)\<close>: a non-empty string of decimal digits whose value is
  below \<open>2 ^ 32\<close>; anything else is an error.
\<close>

definition isDigit :: "char \<Rightarrow> bool" where
  "isDigit c = (48 \<le> (of_char c :: nat) \<and> (of_char c :: nat) \<le> 57)"

definition ParseUint :: "string \<Rightarrow> nat option" where
  "ParseUint s =
     (if s = [] \<or> \<not> list_all isDigit s then None
      else (let n = fold (\<lambda>c acc. 10 * acc + ((of_char c :: nat) - 48)) s 0
            in if n < 2 ^ 32 then Some n else None))"

text \<open>\<open>strconv.Itoa(int(n))\<close> for an id below \<open>2 ^ 63\<close>: its decimal digits.\<close>

fun Itoa :: "nat \<Rightarrow> string" where
  "Itoa n = (if n < 10 then [char_of (48 + n)] else Itoa (n div 10) @ [char_of (48 + n mod 10)])"

declare Itoa.simps [simp del]

section \<open>The handlers of the voter service (voting-application/voter-api/api/voter-api.go)\<close>

text \<open>
  A handler takes the store, the path parameters as the strings \<open>c.Param\<close> returns, and
  the outcome of \<open>ShouldBindJSON\<close> (\<open>None\<close> when binding fails); it returns the response
  and the store.
\<close>

definition VoterAPI_ListAllVoters :: "VoterCache \<Rightarrow> response \<times> VoterCache" where
  "VoterAPI_ListAllVoters vc =
     (case VoterCache_GetAllVoters vc of
        Inl _ \<Rightarrow> (AbortWithStatus StatusBadRequest, vc)
      | Inr voters \<Rightarrow> (JSON StatusOK (JVoters voters), vc))"

definition VoterAPI_GetVoter :: "VoterCache \<Rightarrow> string \<Rightarrow> response \<times> VoterCache" where
  "VoterAPI_GetVoter vc idParam =
     (case ParseUint idParam of
        None \<Rightarrow> (AbortWithStatus StatusBadRequest, vc)
      | Some voterIDUint \<Rightarrow>
          (case VoterCache_GetVoter vc voterIDUint of
             Inl _ \<Rightarrow> (AbortWithStatus StatusNotFound, vc)
           | Inr voter \<Rightarrow> (JSON StatusOK (JVoter voter), vc)))"

definition VoterAPI_AddVoter :: "VoterCache \<Rightarrow> string \<Rightarrow> Voter option \<Rightarrow> response \<times> VoterCache" where
  "VoterAPI_AddVoter vc idParam bound =
     (case ParseUint idParam of
        None \<Rightarrow> (AbortWithStatus StatusBadRequest, vc)
      | Some voterIDUint \<Rightarrow>
          (case bound of
             None \<Rightarrow> (AbortWithStatus StatusBadRequest, vc)
           | Some newVoter \<Rightarrow>
               (let newVoter' = NewVoter voterIDUint (FirstName newVoter) (LastName newVoter)
                in case VoterCache_AddVoter vc newVoter' of
                     (Inl _, vc') \<Rightarrow> (AbortWithStatus StatusInternalServerError, vc')
                   | (Inr _, vc') \<Rightarrow> (JSON StatusOK (JVoter newVoter'), vc'))))"

definition VoterAPI_UpdateVoter :: "VoterCache \<Rightarrow> string \<Rightarrow> Voter option \<Rightarrow> response \<times> VoterCache" where
  "VoterAPI_UpdateVoter vc idParam bound =
     (case ParseUint idParam of
        None \<Rightarrow> (AbortWithStatus StatusBadRequest, vc)
      | Some voterIDUint \<Rightarrow>
          (case bound of
             None \<Rightarrow> (AbortWithStatus StatusBadRequest, vc)
           | Some voter \<Rightarrow>
               (case VoterCache_UpdateVoter vc (voter\<lparr>VoterID := voterIDUint\<rparr>) of
                  (Inl _, vc') \<Rightarrow> (AbortWithStatus StatusInternalServerError, vc')
                | (Inr updatedVoter, vc') \<Rightarrow> (JSON StatusOK (JVoter updatedVoter), vc'))))"

definition VoterAPI_DeleteAllVoters :: "VoterCache \<Rightarrow> response \<times> VoterCache" where
  "VoterAPI_DeleteAllVoters vc =
     (case VoterCache_DeleteAllVoters vc of
        (Inl _, vc') \<Rightarrow> (AbortWithStatus StatusNotFound, vc')
      | (Inr _, vc') \<Rightarrow> (JSON StatusOK (JMessage ''All voters deleted successfully.''), vc'))"

definition VoterAPI_DeleteVoter :: "VoterCache \<Rightarrow> string \<Rightarrow> response \<times> VoterCache" where
  "VoterAPI_DeleteVoter vc idParam =
     (case ParseUint idParam of
        None \<Rightarrow> (AbortWithStatus StatusBadRequest, vc)
      | Some voterIDUint \<Rightarrow>
          (case VoterCache_DeleteVoter vc voterIDUint of
             (Inl _, vc') \<Rightarrow> (AbortWithStatus StatusNotFound, vc')
           | (Inr _, vc') \<Rightarrow> (JSON StatusOK (JMessage ''Voter deleted successfully.''), vc')))"

definition VoterAPI_GetVoterHistory :: "VoterCache \<Rightarrow> string \<Rightarrow> response \<times> VoterCache" where
  "VoterAPI_GetVoterHistory vc idParam =
     (case ParseUint idParam of
        None \<Rightarrow> (AbortWithStatus StatusBadRequest, vc)
      | Some voterIDUint \<Rightarrow>
          (case VoterCache_GetVoterHistory vc voterIDUint of
             Inl _ \<Rightarrow> (AbortWithStatus StatusNotFound, vc)
           | Inr voterHistory \<Rightarrow> (JSON StatusOK (JVoterHistory voterHistory), vc)))"

definition VoterAPI_GetVoterPoll :: "VoterCache \<Rightarrow> string \<Rightarrow> string \<Rightarrow> response \<times> VoterCache" where
  "VoterAPI_GetVoterPoll vc idParam pollIdParam =
     (case ParseUint idParam of
        None \<Rightarrow> (AbortWithStatus StatusBadRequest, vc)
      | Some voterIDUint \<Rightarrow>
          (case ParseUint pollIdParam of
             None \<Rightarrow> (AbortWithStatus StatusBadRequest, vc)
           | Some pollIDUint \<Rightarrow>
               (case VoterCache_GetVoterPoll vc voterIDUint pollIDUint of
                  Inl _ \<Rightarrow> (AbortWithStatus StatusNotFound, vc)
                | Inr voterPoll \<Rightarrow> (JSON StatusOK (JVoterPoll voterPoll), vc))))"

text \<open>
  \<open>AddVoterPoll\<close> and \<open>UpdateVoterPoll\<close> bind a body \<open>{voteDate}\<close> (\<open>bound\<close>), then replace
  the date by \<open>time.Now()\<close> (\<open>now\<close>) unless the request carries a form field
  \<open>voteDate\<close> (\<open>postForm\<close>).
\<close>

definition VoterAPI_AddVoterPoll ::
  "VoterCache \<Rightarrow> string \<Rightarrow> string \<Rightarrow> time option \<Rightarrow> bool \<Rightarrow> time \<Rightarrow> response \<times> VoterCache" where
  "VoterAPI_AddVoterPoll vc idParam pollIdParam bound postForm now =
     (case ParseUint idParam of
        None \<Rightarrow> (AbortWithStatus StatusBadRequest, vc)
      | Some voterIDUint \<Rightarrow>
          (case ParseUint pollIdParam of
             None \<Rightarrow> (AbortWithStatus StatusBadRequest, vc)
           | Some pollIDUint \<Rightarrow>
               (case bound of
                  None \<Rightarrow> (AbortWithStatus StatusBadRequest, vc)
                | Some voteDate \<Rightarrow>
                    (let voteDate' = (if postForm then voteDate else now)
                     in case VoterCache_AddVoterPoll vc voterIDUint pollIDUint voteDate' of
                          (Inl _, vc') \<Rightarrow> (AbortWithStatus StatusBadRequest, vc')
                        | (Inr newVoterPoll, vc') \<Rightarrow>
                            (JSON StatusOK (JVoterPoll newVoterPoll), vc')))))"

definition VoterAPI_UpdateVoterPoll ::
  "VoterCache \<Rightarrow> string \<Rightarrow> string \<Rightarrow> time option \<Rightarrow> bool \<Rightarrow> time \<Rightarrow> response \<times> VoterCache" where
  "VoterAPI_UpdateVoterPoll vc idParam pollIdParam bound postForm now =
     (case ParseUint idParam of
        None \<Rightarrow> (AbortWithStatus StatusBadRequest, vc)
      | Some voterIDUint \<Rightarrow>
          (case ParseUint pollIdParam of
             None \<Rightarrow> (AbortWithStatus StatusBadRequest, vc)
           | Some pollIDUint \<Rightarrow>
               (case bound of
                  None \<Rightarrow> (AbortWithStatus StatusBadRequest, vc)
                | Some voteDate \<Rightarrow>
                    (let voteDate' = (if postForm then voteDate else now)
                     in case VoterCache_UpdateVoterPoll vc voterIDUint pollIDUint voteDate' of
                          (Inl _, vc') \<Rightarrow> (AbortWithStatus StatusBadRequest, vc')
                        | (Inr updatedVoterPoll, vc') \<Rightarrow>
                            (JSON StatusOK (JVoterPoll updatedVoterPoll), vc')))))"

definition VoterAPI_DeleteVoterPoll :: "VoterCache \<Rightarrow> string \<Rightarrow> string \<Rightarrow> response \<times> VoterCache" where
  "VoterAPI_DeleteVoterPoll vc idParam pollIdParam =
     (case ParseUint idParam of
        None \<Rightarrow> (AbortWithStatus StatusBadRequest, vc)
      | Some voterIDUint \<Rightarrow>
          (case ParseUint pollIdParam of
             None \<Rightarrow> (AbortWithStatus StatusBadRequest, vc)
           | Some pollIDUint \<Rightarrow>
               (case VoterCache_DeleteVoterPoll vc voterIDUint pollIDUint of
                  (Inl _, vc') \<Rightarrow> (AbortWithStatus StatusNotFound, vc')
                | (Inr _, vc') \<Rightarrow>
                    (JSON StatusOK (JMessage ''Voter poll deleted successfully.''), vc'))))"

text \<open>A request to the voter service, and the handler that serves it.\<close>

datatype voter_request =
    ListAllVoters
  | GetVoter string
  | AddVoter string "Voter option"
  | UpdateVoter string "Voter option"
  | DeleteAllVoters
  | DeleteVoter string
  | GetVoterHistory string
  | GetVoterPoll string string
  | AddVoterPoll string string "time option" bool time
  | UpdateVoterPoll string string "time option" bool time
  | DeleteVoterPoll string string

fun VoterAPI_handle :: "VoterCache \<Rightarrow> voter_request \<Rightarrow> response \<times> VoterCache" where
  "VoterAPI_handle vc ListAllVoters = VoterAPI_ListAllVoters vc"
| "VoterAPI_handle vc (GetVoter i) = VoterAPI_GetVoter vc i"
| "VoterAPI_handle vc (AddVoter i b) = VoterAPI_AddVoter vc i b"
| "VoterAPI_handle vc (UpdateVoter i b) = VoterAPI_UpdateVoter vc i b"
| "VoterAPI_handle vc DeleteAllVoters = VoterAPI_DeleteAllVoters vc"
| "VoterAPI_handle vc (DeleteVoter i) = VoterAPI_DeleteVoter vc i"
| "VoterAPI_handle vc (GetVoterHistory i) = VoterAPI_GetVoterHistory vc i"
| "VoterAPI_handle vc (GetVoterPoll i p) = VoterAPI_GetVoterPoll vc i p"
| "VoterAPI_handle vc (AddVoterPoll i p b f t) = VoterAPI_AddVoterPoll vc i p b f t"
| "VoterAPI_handle vc (UpdateVoterPoll i p b f t) = VoterAPI_UpdateVoterPoll vc i p b f t"
| "VoterAPI_handle vc (DeleteVoterPoll i p) = VoterAPI_DeleteVoterPoll vc i p"

section \<open>The poll service, as the votes service uses it (poll-api/api/poll-api.go)\<close>

definition PollAPI_ListAllVPolls :: "PollCache \<Rightarrow> response \<times> PollCache" where
  "PollAPI_ListAllVPolls pc =
     (case PollCache_GetAllPolls pc of
        Inl _ \<Rightarrow> (AbortWithStatus StatusBadRequest, pc)
      | Inr polls \<Rightarrow> (JSON StatusOK (JPolls polls), pc))"

section \<open>The votes service (voting-application/votes-api/api/votes-api.go)\<close>

text \<open>
  The \<open>VotesAPI\<close> struct: its store and its request counters. \<open>totalCalls\<close> and
  \<open>errorCalls\<close> are \<open>uint64\<close>, \<open>totalRequestTime\<close> is a \<open>time.Duration\<close>, a signed
  64-bit count of nanoseconds. The two URLs and the HTTP client are configuration.
\<close>

record VotesAPI =
  votesList :: VotesCache
  totalCalls :: "64 word"
  errorCalls :: "64 word"
  bootTime :: time
  totalRequestTime :: "64 word"

definition NewVotesHandler :: "VotesCache \<Rightarrow> time \<Rightarrow> VotesAPI" where
  "NewVotesHandler votesCache boot =
     \<lparr>votesList = votesCache, totalCalls = 0, errorCalls = 0, bootTime = boot,
      totalRequestTime = 0\<rparr>"

text \<open>
  What one request meets outside the process: whether each of the HTTP calls of the
  workflow reaches its service (\<open>votersUp\<close> for \<open>GET /voters\<close>, \<open>pollsUp\<close> for
  \<open>GET /polls\<close>, \<open>historyUp\<close> for the \<open>POST\<close> or \<open>DELETE\<close> on
  \<open>/voters/{id}/polls/{pollId}\<close>), the clocks of the votes and voter services, and the
  duration the middleware measures for the request.
\<close>

record env =
  votersUp :: bool
  pollsUp :: bool
  historyUp :: bool
  clock :: time
  remoteClock :: time
  elapsed :: "64 word"

text \<open>The votes service together with the stores of the two services it calls.\<close>

record world =
  va :: VotesAPI
  voterService :: VoterCache
  pollService :: PollCache

text \<open>
  The HTTP client. A call returns an error only when no response arrives (the request
  is then taken not to have reached the service); a response with any status, also 4xx
  or 5xx, is no error. \<open>SetResult\<close> decodes the body only of a 2xx response, so after any
  other response the result keeps its initial value, the empty slice.
\<close>

definition IsSuccess :: "nat \<Rightarrow> bool" where
  "IsSuccess code = (199 < code \<and> code < 300)"

definition resty_Get_voters :: "bool \<Rightarrow> VoterCache \<Rightarrow> string + Voter list" where
  "resty_Get_voters up vc =
     (if \<not> up then Inl ''no response''
      else (case VoterAPI_ListAllVoters vc of
              (resp, _) \<Rightarrow>
                Inr (if IsSuccess (status resp)
                     then (case body resp of JVoters voters \<Rightarrow> voters | _ \<Rightarrow> [])
                     else [])))"

definition resty_Get_polls :: "bool \<Rightarrow> PollCache \<Rightarrow> string + Poll list" where
  "resty_Get_polls up pc =
     (if \<not> up then Inl ''no response''
      else (case PollAPI_ListAllVPolls pc of
              (resp, _) \<Rightarrow>
                Inr (if IsSuccess (status resp)
                     then (case body resp of JPolls polls \<Rightarrow> polls | _ \<Rightarrow> [])
                     else [])))"

text \<open>
  \<open>POST\<close> and \<open>DELETE\<close> on \<open>/voters/{voterID}/polls/{pollID}\<close>: when the request arrives,
  the voter service runs its handler on its own store; the result is the response.
\<close>

definition resty_Post_voterPoll ::
  "bool \<Rightarrow> VoterCache \<Rightarrow> nat \<Rightarrow> nat \<Rightarrow> time \<Rightarrow> time \<Rightarrow> (string + response) \<times> VoterCache" where
  "resty_Post_voterPoll up vc voterID pollID voteDate remoteNow =
     (if \<not> up then (Inl ''no response'', vc)
      else (case VoterAPI_AddVoterPoll vc (Itoa voterID) (Itoa pollID) (Some voteDate) False remoteNow of
              (resp, vc') \<Rightarrow> (Inr resp, vc')))"

definition resty_Delete_voterPoll ::
  "bool \<Rightarrow> VoterCache \<Rightarrow> nat \<Rightarrow> nat \<Rightarrow> (string + response) \<times> VoterCache" where
  "resty_Delete_voterPoll up vc voterID pollID =
     (if \<not> up then (Inl ''no response'', vc)
      else (case VoterAPI_DeleteVoterPoll vc (Itoa voterID) (Itoa pollID) of
              (resp, vc') \<Rightarrow> (Inr resp, vc')))"

text \<open>
  The handlers. Each takes what it reads and returns the response with what it may have
  changed: the votes store and, for the two workflows, the store of the voter service.
\<close>

definition VotesAPI_WelcomeToVotesAPI :: response where
  "VotesAPI_WelcomeToVotesAPI = JSON StatusOK (JMessage ''Welcome to votes API.'')"

definition VotesAPI_ListAllVotes :: "VotesCache \<Rightarrow> response" where
  "VotesAPI_ListAllVotes vc =
     (case VotesCache_GetAllVotes vc of
        Inl _ \<Rightarrow> AbortWithStatus StatusBadRequest
      | Inr votes \<Rightarrow> JSON StatusOK (JVotes votes))"

definition VotesAPI_GetVote :: "VotesCache \<Rightarrow> string \<Rightarrow> response" where
  "VotesAPI_GetVote vc idParam =
     (case ParseUint idParam of
        None \<Rightarrow> AbortWithStatus StatusBadRequest
      | Some voteIDUint \<Rightarrow>
          (case VotesCache_GetVote vc voteIDUint of
             Inl _ \<Rightarrow> AbortWithStatus StatusNotFound
           | Inr vote \<Rightarrow> JSON StatusOK (JVote vote)))"

definition VotesAPI_AddVote ::
  "env \<Rightarrow> VotesCache \<Rightarrow> VoterCache \<Rightarrow> PollCache \<Rightarrow> string \<Rightarrow> Vote option
   \<Rightarrow> response \<times> VotesCache \<times> VoterCache" where
  "VotesAPI_AddVote e vc voterSvc pollSvc idParam bound =
     (case bound of
        None \<Rightarrow> (AbortWithStatus StatusBadRequest, vc, voterSvc)
      | Some vote \<Rightarrow>
          (case resty_Get_voters (votersUp e) voterSvc of
             Inl _ \<Rightarrow> (JSON StatusNotFound (JError ''Could not find voter in cache''), vc, voterSvc)
           | Inr voters \<Rightarrow>
               if \<not> list_ex (\<lambda>voter. VoterID voter = Vote_VoterID vote) voters
               then (JSON StatusNotFound (JError ''Could not find voter in cache''), vc, voterSvc)
               else
                 (case resty_Get_polls (pollsUp e) pollSvc of
                    Inl _ \<Rightarrow>
                      (JSON StatusNotFound (JError ''Could not find poll in cache''), vc, voterSvc)
                  | Inr polls \<Rightarrow>
                      (case find (\<lambda>poll. Poll_PollID poll = Vote_PollID vote) polls of
                         None \<Rightarrow>
                           (JSON StatusNotFound (JError ''Could not find poll in cache''), vc, voterSvc)
                       | Some poll \<Rightarrow>
                           if \<not> list_ex (\<lambda>option. PollOptionID option = VoteValue vote)
                                  (PollOptions poll)
                           then (JSON StatusNotFound (JError ''Could not find poll option in cache''),
                                 vc, voterSvc)
                           else
                             (case ParseUint idParam of
                                None \<Rightarrow> (AbortWithStatus StatusBadRequest, vc, voterSvc)
                              | Some voteIDUint \<Rightarrow>
                                  (let vote' = vote\<lparr>VoteID := voteIDUint\<rparr>
                                   in case VotesCache_AddVote vc vote' of
                                        (Inl _, vc') \<Rightarrow>
                                          (AbortWithStatus StatusConflict, vc', voterSvc)
                                      | (Inr _, vc') \<Rightarrow>
                                          (case resty_Post_voterPoll (historyUp e) voterSvc
                                                  (Vote_VoterID vote') (Vote_PollID vote')
                                                  (clock e) (remoteClock e) of
                                             (Inl _, voterSvc') \<Rightarrow>
                                               (AbortWithStatus StatusInternalServerError,
                                                vc', voterSvc')
                                           | (Inr _, voterSvc') \<Rightarrow>
                                               (JSON StatusOK (JVote vote'), vc', voterSvc'))))))))"

definition VotesAPI_DeleteVote ::
  "env \<Rightarrow> VotesCache \<Rightarrow> VoterCache \<Rightarrow> string \<Rightarrow> response \<times> VotesCache \<times> VoterCache" where
  "VotesAPI_DeleteVote e vc voterSvc idParam =
     (case ParseUint idParam of
        None \<Rightarrow> (AbortWithStatus StatusBadRequest, vc, voterSvc)
      | Some voteIDUint \<Rightarrow>
          (case VotesCache_GetVote vc voteIDUint of
             Inl _ \<Rightarrow> (AbortWithStatus StatusNotFound, vc, voterSvc)
           | Inr vote \<Rightarrow>
               (case resty_Delete_voterPoll (historyUp e) voterSvc
                       (Vote_VoterID vote) (Vote_PollID vote) of
                  (Inl _, voterSvc') \<Rightarrow>
                    (AbortWithStatus StatusInternalServerError, vc, voterSvc')
                | (Inr _, voterSvc') \<Rightarrow>
                    (case VotesCache_DeleteVote vc voteIDUint of
                       (Inl _, vc') \<Rightarrow>
                         (AbortWithStatus StatusInternalServerError, vc', voterSvc')
                     | (Inr _, vc') \<Rightarrow>
                         (JSON StatusOK (JMessage ''Vote deleted successfully.''), vc', voterSvc')))))"

text \<open>
  Go's \<open>/\<close> on \<open>time.Duration\<close>: signed 64-bit division, truncating towards zero.
\<close>

definition duration_div :: "64 word \<Rightarrow> 64 word \<Rightarrow> 64 word" where
  "duration_div a b = word_of_int (sint a sdiv sint b)"

definition VotesAPI_HealthCheck :: "env \<Rightarrow> VotesAPI \<Rightarrow> response" where
  "VotesAPI_HealthCheck e v =
     (let averageRequestTime =
            (if 0 < totalCalls v then duration_div (totalRequestTime v) (totalCalls v) else 0)
      in JSON StatusOK
           (JHealth \<lparr>healthStatus = ''ok'', uptime = clock e - bootTime v,
                     totalAPICalls = totalCalls v, totalAPICallsError = errorCalls v,
                     healthBootTime = bootTime v, healthTotalRequestTime = totalRequestTime v,
                     averageRequestTime = averageRequestTime\<rparr>))"

text \<open>The routes \<open>main\<close> registers, all behind \<open>HealthMiddleware\<close>.\<close>

datatype votes_request =
    WelcomeToVotesAPI
  | ListAllVotes
  | GetVote string
  | AddVote string "Vote option"
  | DeleteVote string
  | HealthCheck

fun route :: "env \<Rightarrow> votes_request \<Rightarrow> world \<Rightarrow> response \<times> world" where
  "route e WelcomeToVotesAPI w = (VotesAPI_WelcomeToVotesAPI, w)"
| "route e ListAllVotes w = (VotesAPI_ListAllVotes (votesList (va w)), w)"
| "route e (GetVote idParam) w = (VotesAPI_GetVote (votesList (va w)) idParam, w)"
| "route e (AddVote idParam bound) w =
     (case VotesAPI_AddVote e (votesList (va w)) (voterService w) (pollService w) idParam bound of
        (resp, vc', voterSvc') \<Rightarrow>
          (resp, w\<lparr>va := (va w)\<lparr>votesList := vc'\<rparr>, voterService := voterSvc'\<rparr>))"
| "route e (DeleteVote idParam) w =
     (case VotesAPI_DeleteVote e (votesList (va w)) (voterService w) idParam of
        (resp, vc', voterSvc') \<Rightarrow>
          (resp, w\<lparr>va := (va w)\<lparr>votesList := vc'\<rparr>, voterService := voterSvc'\<rparr>))"
| "route e HealthCheck w = (VotesAPI_HealthCheck e (va w), w)"

text \<open>
  \<open>HealthMiddleware\<close>: \<open>next\<close> is \<open>c.Next()\<close>, the handler of the route, and \<open>elapsed e\<close>
  is what \<open>time.Since(start)\<close> returns after it.
\<close>

definition HealthMiddleware ::
  "env \<Rightarrow> (world \<Rightarrow> response \<times> world) \<Rightarrow> world \<Rightarrow> response \<times> world" where
  "HealthMiddleware e next w =
     (let w1 = w\<lparr>va := (va w)\<lparr>totalCalls := totalCalls (va w) + 1\<rparr>\<rparr>
      in case next w1 of
           (resp, w2) \<Rightarrow>
             (let w3 = (if 400 \<le> status resp
                        then w2\<lparr>va := (va w2)\<lparr>errorCalls := errorCalls (va w2) + 1\<rparr>\<rparr>
                        else w2);
                  w4 = w3\<lparr>va := (va w3)\<lparr>totalRequestTime := totalRequestTime (va w3) + elapsed e\<rparr>\<rparr>
              in (resp, w4)))"

definition serve :: "env \<Rightarrow> votes_request \<Rightarrow> world \<Rightarrow> response \<times> world" where
  "serve e req w = HealthMiddleware e (route e req) w"

text \<open>A run of the service: the requests one after the other, with their responses.\<close>

fun serveAll :: "world \<Rightarrow> (env \<times> votes_request) list \<Rightarrow> response list \<times> world" where
  "serveAll w [] = ([], w)"
| "serveAll w ((e, req) # rest) =
     (case serve e req w of
        (resp, w') \<Rightarrow> (case serveAll w' rest of (resps, w'') \<Rightarrow> (resp # resps, w'')))"

section \<open>Predicates and sample states used in the statements\<close>

text \<open>At most one entry per \<open>PollID\<close> in a vote history.\<close>

definition history_unique :: "voterPoll list \<Rightarrow> bool" where
  "history_unique h = distinct (map PollID h)"

text \<open>
  The invariant of a voter store: one entry per key, every voter stored under its own
  \<open>VoterID\<close>, and every history with at most one entry per \<open>PollID\<close>.
\<close>

definition store_inv :: "(nat \<times> Voter) list \<Rightarrow> bool" where
  "store_inv vl =
     (distinct (map fst vl)
      \<and> list_all (\<lambda>(k, v). VoterID v = k \<and> history_unique (VoteHistory v)) vl)"



text \<open>
  What \<open>AddVote\<close> checks, read on the stores of the two services: some stored voter has
  the vote's \<open>VoterID\<close>; some stored poll has the vote's \<open>PollID\<close>; some stored poll with
  that \<open>PollID\<close> has an option whose \<open>PollOptionID\<close> is the vote's \<open>VoteValue\<close>.
\<close>

definition voter_exists :: "VoterCache \<Rightarrow> Vote \<Rightarrow> bool" where
  "voter_exists voterSvc vote = (\<exists>voter \<in> snd ` set voterSvc. VoterID voter = Vote_VoterID vote)"

definition poll_exists :: "PollCache \<Rightarrow> Vote \<Rightarrow> bool" where
  "poll_exists pollSvc vote = (\<exists>poll \<in> snd ` set pollSvc. Poll_PollID poll = Vote_PollID vote)"

definition option_exists :: "PollCache \<Rightarrow> Vote \<Rightarrow> bool" where
  "option_exists pollSvc vote =
     (\<exists>poll \<in> snd ` set pollSvc.
        Poll_PollID poll = Vote_PollID vote
        \<and> (\<exists>option \<in> set (PollOptions poll). PollOptionID option = VoteValue vote))"

text \<open>The number of responses with a status of 400 or more.\<close>

definition errorCount :: "response list \<Rightarrow> nat" where
  "errorCount resps = length (filter (\<lambda>resp. 400 \<le> status resp) resps)"

text \<open>The sum of the durations measured for the requests of a run.\<close>

definition elapsedSum :: "(env \<times> votes_request) list \<Rightarrow> 64 word" where
  "elapsedSum reqs = sum_list (map (\<lambda>(e, req). elapsed e) reqs)"

text \<open>The item of the todo scenario.\<close>

definition sample_item :: ToDoItem where
  "sample_item = \<lparr>Id = 99, Title = ''sample item'', IsDone = True\<rparr>"

text \<open>
  The sample data of \<open>test-apis.sh\<close>: voter 1, the poll ``Tea or Coffee'' with its two
  options, and a request environment in which every call arrives.
\<close>

definition voter1 :: Voter where
  "voter1 = \<lparr>VoterID = 1, FirstName = ''Nisarg'', LastName = ''Patel'', VoteHistory = []\<rparr>"

text \<open>Voter 1 after a vote in poll 1, and the store that holds this voter only.\<close>

definition votedVoter1 :: Voter where
  "votedVoter1 = voter1\<lparr>VoteHistory := [\<lparr>PollID = 1, VoteDate = 5\<rparr>]\<rparr>"

definition votedStore :: "(nat \<times> Voter) list" where
  "votedStore = [(1, votedVoter1)]"

text \<open>Voter 1 with a history entry for poll 0, as \<open>POST /voters/1/polls/0\<close> leaves it.\<close>

definition pollZeroStore :: "(nat \<times> Voter) list" where
  "pollZeroStore = [(1, voter1\<lparr>VoteHistory := [\<lparr>PollID = 0, VoteDate = 5\<rparr>]\<rparr>)]"

text \<open>An update payload for voter 1 that carries a new name and a history of its own.\<close>

definition renamedVoter1 :: Voter where
  "renamedVoter1 = \<lparr>VoterID = 1, FirstName = ''Anish'', LastName = ''Patel'',
                    VoteHistory = [\<lparr>PollID = 7, VoteDate = 1\<rparr>, \<lparr>PollID = 7, VoteDate = 2\<rparr>]\<rparr>"

definition poll1 :: Poll where
  "poll1 = \<lparr>Poll_PollID = 1, PollTitle = ''Tea or Coffee'',
            PollQuestion = ''Do you like Tea or Coffee?'',
            PollOptions = [\<lparr>PollOptionID = 1, PollOptionText = ''Tea''\<rparr>,
                           \<lparr>PollOptionID = 2, PollOptionText = ''Coffee''\<rparr>]\<rparr>"

definition vote1 :: Vote where
  "vote1 = \<lparr>VoteID = 0, Vote_VoterID = 1, Vote_PollID = 1, VoteValue = 1\<rparr>"

text \<open>
  A vote of voter 2, who is not stored; vote 3 of \<open>test-apis.sh\<close>, of voter 1 in poll 2;
  and the votes service just after boot, with empty stores around it.
\<close>

definition strangerVote :: Vote where
  "strangerVote = \<lparr>VoteID = 0, Vote_VoterID = 2, Vote_PollID = 1, VoteValue = 1\<rparr>"

definition vote3 :: Vote where
  "vote3 = \<lparr>VoteID = 3, Vote_VoterID = 1, Vote_PollID = 2, VoteValue = 2\<rparr>"

definition bootWorld :: world where
  "bootWorld = \<lparr>va = NewVotesHandler [] 0, voterService = [], pollService = []\<rparr>"

definition allUp :: env where
  "allUp = \<lparr>votersUp = True, pollsUp = True, historyUp = True, clock = 7, remoteClock = 8,
            elapsed = 3\<rparr>"

section \<open>Properties of the todo store\<close>

text \<open>
  Claim C9. Starting from an empty todo store, adding the item
  \<open>{id: 99, title: "sample item", done: true}\<close> succeeds and \<open>GetAllItems\<close> then returns
  exactly that item; after \<open>ChangeItemDoneStatus(99, false)\<close>, \<open>GetItem(99)\<close> succeeds and
  returns the item with \<open>IsDone\<close> false and with \<open>Id\<close> and \<open>Title\<close> unchanged. The same
  holds when every call is made on a \<open>ToDo\<close> opened afresh on the file.
\<close>

theorem todo_sample_scenario:
  "fst (AddItem New sample_item) = Inr ()
   \<and> fst (GetAllItems (snd (AddItem New sample_item))) = Inr [sample_item]
   \<and> fst (ChangeItemDoneStatus (snd (GetAllItems (snd (AddItem New sample_item)))) 99 False) = Inr ()
   \<and> fst (GetItem (snd (ChangeItemDoneStatus (snd (GetAllItems (snd (AddItem New sample_item)))) 99 False)) 99)
       = Inr \<lparr>Id = 99, Title = ''sample item'', IsDone = False\<rparr>
   \<and> fst (GetAllItems (Reopen (snd (AddItem New sample_item)))) = Inr [sample_item]
   \<and> fst (ChangeItemDoneStatus (Reopen (snd (AddItem New sample_item))) 99 False) = Inr ()
   \<and> fst (GetItem (Reopen (snd (ChangeItemDoneStatus (Reopen (snd (AddItem New sample_item))) 99 False))) 99)
       = Inr \<lparr>Id = 99, Title = ''sample item'', IsDone = False\<rparr>"
  by (simp add: AddItem_def GetAllItems_def ChangeItemDoneStatus_def GetItem_def UpdateItem_def
      loadDB_def saveDB_def New_def Reopen_def sample_item_def)

section \<open>Properties of the voter store\<close>

subsection \<open>The invariant under updates of the association list\<close>








lemma updateLoop_fst:
  "fst (updateLoop pollID d h) =
     (if pollID \<in> PollID ` set h then \<lparr>PollID = pollID, VoteDate = d\<rparr> else zeroVoterPoll)"
  by (induction h) (auto split: prod.splits)





subsection \<open>The in-memory store keeps the invariant\<close>









subsection \<open>The Redis-backed store keeps the invariant\<close>

lemma VoterCache_GetVoter_eq:
  "VoterCache_GetVoter vc k =
     (case map_of vc k of None \<Rightarrow> Inl ''voter does not exist'' | Some v \<Rightarrow> Inr v)"
  by (simp add: VoterCache_GetVoter_def JSONGet_def split: option.splits)




lemma delAllLoop_eq: "delAllLoop db ks = Inr (filter (\<lambda>p. fst p \<notin> set ks) db)"
proof (induction ks arbitrary: db)
  case Nil
  show ?case by simp
next
  case (Cons k ks)
  have "AList.delete k db = filter (\<lambda>p. fst p \<noteq> k) db"
    by (induction db) auto
  then show ?case
    by (simp add: Del_def Cons.IH)
qed

lemma delAllLoop_all: "delAllLoop db (map fst db) = Inr []"
  by (simp add: delAllLoop_eq)

lemma VoterCache_DeleteAllVoters_eq: "VoterCache_DeleteAllVoters vc = (Inr (), [])"
  by (simp add: VoterCache_DeleteAllVoters_def Keys_def delAllLoop_all)

lemma VoterCache_DeleteAllVoters_inv: "store_inv (snd (VoterCache_DeleteAllVoters vc))"
  by (simp add: VoterCache_DeleteAllVoters_eq store_inv_def)













subsection \<open>One history entry per poll\<close>



text \<open>The store \<open>votedStore\<close> is reached by adding voter 1 and then a vote in poll 1.\<close>

lemma ParseUint_1: "ParseUint ''1'' = Some 1"
  by (simp add: ParseUint_def isDigit_def)




subsection \<open>Updating a history entry\<close>

text \<open>
  For a \<open>pollID\<close> other than 0, \<open>UpdateVoterPoll\<close> fails exactly when the voter or the
  entry is absent, and otherwise returns the entry with the new date.
\<close>

lemma UpdateVoterPoll_nonzero:
  assumes "pollID \<noteq> 0"
  shows "fst (VoterCache_UpdateVoterPoll s voterID pollID d) =
           (case map_of s voterID of
              None \<Rightarrow> Inl ''voter does not exist''
            | Some v \<Rightarrow>
                if pollID \<in> PollID ` set (VoteHistory v)
                then Inr \<lparr>PollID = pollID, VoteDate = d\<rparr>
                else Inl ''voter poll not found'')"
    and "fst (VoterList_UpdateVoterPoll s voterID pollID d) =
           (case map_of s voterID of
              None \<Rightarrow> Inl ''voter does not exist''
            | Some v \<Rightarrow>
                if pollID \<in> PollID ` set (VoteHistory v)
                then Inr \<lparr>PollID = pollID, VoteDate = d\<rparr>
                else Inl ''voter poll not found'')"
  using assms
  by (simp_all add: VoterCache_UpdateVoterPoll_def VoterList_UpdateVoterPoll_def
      VoterCache_GetVoter_eq JSONSet_def Let_def case_prod_beta updateLoop_fst zeroVoterPoll_def
      split: option.splits)

text \<open>
  Claim C5, at the input where the code departs from it. The store \<open>pollZeroStore\<close> is
  reached by adding voter 1 and then a history entry for poll 0, which \<open>GetVoterPoll\<close>
  finds. \<open>UpdateVoterPoll\<close> for voter 1 and poll 0 reports \<open>voter poll not found\<close>
  although the voter and the entry are present: it takes the \<open>PollID\<close> 0 of the updated
  entry for the zero value of an entry that was never set. The Redis-backed store is left
  as it was; the in-memory store has the new date already, written through the shared
  slice.
\<close>

theorem UpdateVoterPoll_poll_zero:
  "snd (VoterAPI_handle (snd (VoterAPI_handle [] (AddVoter ''1'' (Some voter1))))
         (AddVoterPoll ''1'' ''0'' (Some 5) False 5)) = pollZeroStore
   \<and> VoterCache_GetVoterPoll pollZeroStore 1 0 = Inr \<lparr>PollID = 0, VoteDate = 5\<rparr>
   \<and> VoterCache_UpdateVoterPoll pollZeroStore 1 0 9 = (Inl ''voter poll not found'', pollZeroStore)
   \<and> fst (VoterAPI_handle pollZeroStore (UpdateVoterPoll ''1'' ''0'' (Some 9) False 9))
        = AbortWithStatus StatusBadRequest
   \<and> VoterList_GetVoterPoll pollZeroStore 1 0 = Inr \<lparr>PollID = 0, VoteDate = 5\<rparr>
   \<and> VoterList_UpdateVoterPoll pollZeroStore 1 0 9
        = (Inl ''voter poll not found'',
           [(1, voter1\<lparr>VoteHistory := [\<lparr>PollID = 0, VoteDate = 9\<rparr>]\<rparr>)])"
  by (simp add: VoterAPI_AddVoter_def VoterAPI_AddVoterPoll_def VoterAPI_UpdateVoterPoll_def
      VoterCache_AddVoter_def VoterCache_AddVoterPoll_def VoterCache_UpdateVoterPoll_def
      VoterCache_GetVoterPoll_def VoterList_GetVoterPoll_def VoterList_UpdateVoterPoll_def
      VoterCache_GetVoter_def JSONGet_def JSONSet_def ParseUint_def isDigit_def NewVoter_def
      pollZeroStore_def voter1_def zeroVoterPoll_def Let_def)

subsection \<open>Updating a voter\<close>

text \<open>
  Claim C7. \<open>UpdateVoter\<close> fails with \<open>voter does not exist\<close>, leaving the store as it
  was, when no voter is stored under the id of the payload. Otherwise it succeeds, and
  the voter stored under that id afterwards has the payload's \<open>FirstName\<close> and
  \<open>LastName\<close> and the \<open>VoterID\<close> and \<open>VoteHistory\<close> it had before, whatever history the
  payload carries; the voters under every other id are unchanged. This holds for the
  in-memory and for the Redis-backed store.
\<close>

theorem UpdateVoter_keeps_history:
  "(map_of s (VoterID u) = None \<longrightarrow>
      VoterList_UpdateVoter s u = (Inl ''voter does not exist'', s)
      \<and> VoterCache_UpdateVoter s u = (Inl ''voter does not exist'', s))
   \<and> (map_of s (VoterID u) = Some v \<longrightarrow>
        fst (VoterList_UpdateVoter s u) = Inr ()
        \<and> fst (VoterCache_UpdateVoter s u) = Inr (v\<lparr>FirstName := FirstName u, LastName := LastName u\<rparr>)
        \<and> snd (VoterCache_UpdateVoter s u) = snd (VoterList_UpdateVoter s u)
        \<and> (\<exists>v'. map_of (snd (VoterList_UpdateVoter s u)) (VoterID u) = Some v'
                \<and> FirstName v' = FirstName u \<and> LastName v' = LastName u
                \<and> VoterID v' = VoterID v \<and> VoteHistory v' = VoteHistory v)
        \<and> (\<forall>k. k \<noteq> VoterID u \<longrightarrow>
               map_of (snd (VoterList_UpdateVoter s u)) k = map_of s k))"
  by (simp add: VoterList_UpdateVoter_def VoterCache_UpdateVoter_def VoterCache_GetVoter_eq
      JSONSet_def Let_def update_conv')

theorem UpdateVoter_keeps_history_witness:
  "map_of votedStore (VoterID renamedVoter1) = Some votedVoter1
   \<and> VoteHistory renamedVoter1 \<noteq> VoteHistory votedVoter1
   \<and> fst (VoterList_UpdateVoter votedStore renamedVoter1) = Inr ()
   \<and> snd (VoterCache_UpdateVoter votedStore renamedVoter1)
        = [(1, \<lparr>VoterID = 1, FirstName = ''Anish'', LastName = ''Patel'',
                VoteHistory = [\<lparr>PollID = 1, VoteDate = 5\<rparr>]\<rparr>)]
   \<and> snd (VoterList_UpdateVoter votedStore renamedVoter1)
        = [(1, \<lparr>VoterID = 1, FirstName = ''Anish'', LastName = ''Patel'',
                VoteHistory = [\<lparr>PollID = 1, VoteDate = 5\<rparr>]\<rparr>)]
   \<and> map_of [] (VoterID renamedVoter1) = (None :: Voter option)
   \<and> VoterCache_UpdateVoter [] renamedVoter1 = (Inl ''voter does not exist'', [])"
proof -
  have present: "map_of votedStore (VoterID renamedVoter1) = Some votedVoter1"
    by (simp add: votedStore_def renamedVoter1_def)
  have absent: "map_of [] (VoterID renamedVoter1) = (None :: Voter option)"
    by simp
  show ?thesis
    using present absent
      UpdateVoter_keeps_history [of votedStore renamedVoter1 votedVoter1]
      UpdateVoter_keeps_history [of "[]" renamedVoter1 votedVoter1]
    by (simp add: VoterList_UpdateVoter_def votedStore_def renamedVoter1_def votedVoter1_def
        voter1_def)
qed

section \<open>Properties of the voter service\<close>

subsection \<open>A new voter has no history\<close>

text \<open>
  Claim C10. When \<open>POST /voters/:id\<close> succeeds, the id parsed from the path was free and
  the voter now stored under it is \<open>NewVoter\<close> of that id and of the \<open>FirstName\<close> and
  \<open>LastName\<close> of the body: its \<open>VoteHistory\<close> is empty whatever history the body
  carries, and \<open>GetVoterHistory\<close> of the new voter returns the empty list.
\<close>

theorem AddVoter_stores_empty_history:
  assumes "VoterAPI_AddVoter vc idParam bound = (resp, vc')"
    and "status resp = StatusOK"
  shows "\<exists>n b. ParseUint idParam = Some n \<and> bound = Some b \<and> map_of vc n = None
           \<and> map_of vc' n = Some (NewVoter n (FirstName b) (LastName b))
           \<and> body resp = JVoter (NewVoter n (FirstName b) (LastName b))
           \<and> VoteHistory (NewVoter n (FirstName b) (LastName b)) = []
           \<and> VoterCache_GetVoterHistory vc' n = Inr []"
proof -
  obtain n where n: "ParseUint idParam = Some n"
    using assms by (cases "ParseUint idParam") (auto simp: VoterAPI_AddVoter_def AbortWithStatus_def)
  obtain b where b: "bound = Some b"
    using assms n by (cases bound) (auto simp: VoterAPI_AddVoter_def AbortWithStatus_def)
  have free: "map_of vc n = None"
    using assms n b
    by (cases "map_of vc n")
      (auto simp: VoterAPI_AddVoter_def VoterCache_AddVoter_def VoterCache_GetVoter_eq
        AbortWithStatus_def NewVoter_def Let_def)
  have res: "resp = JSON StatusOK (JVoter (NewVoter n (FirstName b) (LastName b)))"
    and st: "vc' = AList.update n (NewVoter n (FirstName b) (LastName b)) vc"
    using assms(1) n b free
    by (auto simp: VoterAPI_AddVoter_def VoterCache_AddVoter_def VoterCache_GetVoter_eq
        JSONSet_def NewVoter_def Let_def)
  show ?thesis
    using n b free
    by (simp add: res st JSON_def update_conv' VoterCache_GetVoterHistory_def
        VoterCache_GetVoter_eq NewVoter_def)
qed

theorem AddVoter_stores_empty_history_witness:
  "VoterAPI_AddVoter [] ''1'' (Some renamedVoter1)
     = (JSON StatusOK (JVoter (NewVoter 1 ''Anish'' ''Patel'')), [(1, NewVoter 1 ''Anish'' ''Patel'')])
   \<and> status (JSON StatusOK (JVoter (NewVoter 1 ''Anish'' ''Patel''))) = StatusOK
   \<and> VoteHistory renamedVoter1 \<noteq> []
   \<and> VoterCache_GetVoterHistory [(1, NewVoter 1 ''Anish'' ''Patel'')] 1 = Inr []"
proof -
  have run: "VoterAPI_AddVoter [] ''1'' (Some renamedVoter1)
     = (JSON StatusOK (JVoter (NewVoter 1 ''Anish'' ''Patel'')), [(1, NewVoter 1 ''Anish'' ''Patel'')])"
    by (simp add: VoterAPI_AddVoter_def VoterCache_AddVoter_def VoterCache_GetVoter_def
        JSONGet_def JSONSet_def ParseUint_def isDigit_def renamedVoter1_def NewVoter_def Let_def)
  have ok: "status (JSON StatusOK (JVoter (NewVoter 1 ''Anish'' ''Patel''))) = StatusOK"
    by (simp add: JSON_def)
  show ?thesis
    using run ok AddVoter_stores_empty_history [OF run ok]
    by (simp add: ParseUint_1 renamedVoter1_def NewVoter_def)
qed

subsection \<open>Status codes\<close>


lemma status_simps [simp]:
  "status (AbortWithStatus code) = code" "status (JSON code obj) = code"
  by (simp_all add: AbortWithStatus_def JSON_def)





section \<open>Properties of the votes service\<close>

subsection \<open>What the service reads from the other two\<close>

lemma JSONGet_in_set: "JSONGet db key = Inr item \<Longrightarrow> item \<in> snd ` set db"
  by (auto simp: JSONGet_def split: option.splits dest!: map_of_SomeD intro: rev_image_eqI)

lemma getAllLoop_subset:
  "getAllLoop db keys items = Inr xs \<Longrightarrow> set xs \<subseteq> set items \<union> snd ` set db"
proof (induction keys arbitrary: items)
  case Nil
  then show ?case by auto
next
  case (Cons key keys)
  then obtain item where item: "JSONGet db key = Inr item"
    and rest: "getAllLoop db keys (items @ [item]) = Inr xs"
    by (auto split: sum.splits)
  from Cons.IH [OF rest] JSONGet_in_set [OF item] show ?case by auto
qed

lemma resty_Get_voters_subset:
  "resty_Get_voters up vc = Inr voters \<Longrightarrow> set voters \<subseteq> snd ` set vc"
proof -
  assume a: "resty_Get_voters up vc = Inr voters"
  show ?thesis
  proof (cases "VoterCache_GetAllVoters vc")
    case (Inl err)
    with a show ?thesis
      by (auto simp: resty_Get_voters_def VoterAPI_ListAllVoters_def IsSuccess_def
          AbortWithStatus_def split: if_splits)
  next
    case (Inr all)
    then have "set all \<subseteq> snd ` set vc"
      using getAllLoop_subset [of vc "map fst vc" "[]" all]
      by (simp add: VoterCache_GetAllVoters_def Keys_def)
    with a Inr show ?thesis
      by (auto simp: resty_Get_voters_def VoterAPI_ListAllVoters_def IsSuccess_def JSON_def
          split: if_splits)
  qed
qed

lemma resty_Get_polls_subset:
  "resty_Get_polls up pc = Inr polls \<Longrightarrow> set polls \<subseteq> snd ` set pc"
proof -
  assume a: "resty_Get_polls up pc = Inr polls"
  show ?thesis
  proof (cases "PollCache_GetAllPolls pc")
    case (Inl err)
    with a show ?thesis
      by (auto simp: resty_Get_polls_def PollAPI_ListAllVPolls_def IsSuccess_def
          AbortWithStatus_def split: if_splits)
  next
    case (Inr all)
    then have "set all \<subseteq> snd ` set pc"
      using getAllLoop_subset [of pc "map fst pc" "[]" all]
      by (simp add: PollCache_GetAllPolls_def Keys_def)
    with a Inr show ?thesis
      by (auto simp: resty_Get_polls_def PollAPI_ListAllVPolls_def IsSuccess_def JSON_def
          split: if_splits)
  qed
qed

subsection \<open>The checks of AddVote\<close>

text \<open>When a check fails, \<open>AddVote\<close> answers 404 and changes nothing.\<close>

lemma AddVote_check_fails:
  assumes "\<not> (voter_exists voterSvc vote \<and> option_exists pollSvc vote)"
  shows "\<exists>msg. VotesAPI_AddVote e vc voterSvc pollSvc idParam (Some vote)
           = (JSON StatusNotFound (JError msg), vc, voterSvc)"
proof (cases "resty_Get_voters (votersUp e) voterSvc")
  case (Inl err)
  then show ?thesis by (auto simp: VotesAPI_AddVote_def)
next
  case voters: (Inr voters)
  show ?thesis
  proof (cases "list_ex (\<lambda>voter. VoterID voter = Vote_VoterID vote) voters")
    case False
    with voters show ?thesis by (auto simp: VotesAPI_AddVote_def)
  next
    case True
    then have "voter_exists voterSvc vote"
      using resty_Get_voters_subset [OF voters] by (auto simp: voter_exists_def list_ex_iff)
    with assms have no_option: "\<not> option_exists pollSvc vote" by simp
    show ?thesis
    proof (cases "resty_Get_polls (pollsUp e) pollSvc")
      case (Inl err)
      with voters True show ?thesis by (auto simp: VotesAPI_AddVote_def)
    next
      case polls: (Inr polls)
      show ?thesis
      proof (cases "find (\<lambda>poll. Poll_PollID poll = Vote_PollID vote) polls")
        case None
        with voters True polls show ?thesis by (auto simp: VotesAPI_AddVote_def)
      next
        case (Some poll)
        then have "poll \<in> set polls" and "Poll_PollID poll = Vote_PollID vote"
          by (auto simp: find_Some_iff)
        then have "poll \<in> snd ` set pollSvc"
          using resty_Get_polls_subset [OF polls] by auto
        with no_option \<open>Poll_PollID poll = Vote_PollID vote\<close>
        have "\<not> list_ex (\<lambda>option. PollOptionID option = VoteValue vote) (PollOptions poll)"
          by (auto simp: option_exists_def list_ex_iff)
        with voters True polls Some show ?thesis by (auto simp: VotesAPI_AddVote_def)
      qed
    qed
  qed
qed

lemma option_exists_poll_exists: "option_exists pollSvc vote \<Longrightarrow> poll_exists pollSvc vote"
  by (auto simp: option_exists_def poll_exists_def)

text \<open>
  Claim C1. For an \<open>AddVote\<close> request whose body binds to a vote: the votes store
  changes only if some stored voter has the vote's \<open>VoterID\<close>, some stored poll has its
  \<open>PollID\<close>, and such a poll has an option whose \<open>PollOptionID\<close> is its \<open>VoteValue\<close>;
  and if one of the three fails, the answer is 404 and the votes store (and the voter
  store) is as it was.
\<close>

theorem AddVote_checks_references:
  assumes "VotesAPI_AddVote e vc voterSvc pollSvc idParam (Some vote) = (resp, vc', voterSvc')"
  shows "(vc' \<noteq> vc \<longrightarrow>
            voter_exists voterSvc vote \<and> poll_exists pollSvc vote \<and> option_exists pollSvc vote)
         \<and> (\<not> (voter_exists voterSvc vote \<and> poll_exists pollSvc vote \<and> option_exists pollSvc vote)
              \<longrightarrow> status resp = StatusNotFound \<and> vc' = vc \<and> voterSvc' = voterSvc)"
proof -
  have fails: "status resp = StatusNotFound \<and> vc' = vc \<and> voterSvc' = voterSvc"
    if "\<not> (voter_exists voterSvc vote \<and> option_exists pollSvc vote)"
    using AddVote_check_fails [OF that, of e vc idParam] assms by auto
  show ?thesis
    using fails option_exists_poll_exists [of pollSvc vote] by blast
qed


text \<open>The definitions that evaluate a request of the votes service on concrete stores.\<close>

lemmas votes_eval =
  VotesAPI_AddVote_def VotesAPI_DeleteVote_def resty_Get_voters_def resty_Get_polls_def
  resty_Post_voterPoll_def resty_Delete_voterPoll_def IsSuccess_def
  VoterAPI_ListAllVoters_def PollAPI_ListAllVPolls_def VoterAPI_AddVoterPoll_def
  VoterAPI_DeleteVoterPoll_def VoterCache_GetAllVoters_def PollCache_GetAllPolls_def
  VoterCache_AddVoterPoll_def VoterCache_DeleteVoterPoll_def VoterCache_GetVoter_def
  VotesCache_AddVote_def VotesCache_DeleteVote_def VotesCache_GetVote_def
  Keys_def JSONGet_def JSONSet_def JSONDel_def ParseUint_def isDigit_def Itoa.simps
  JSON_def AbortWithStatus_def Let_def
  allUp_def voter1_def votedVoter1_def votedStore_def poll1_def vote1_def vote3_def
  strangerVote_def

theorem AddVote_checks_references_witness:
  "VotesAPI_AddVote allUp [] [(1, voter1)] [(1, poll1)] ''1'' (Some vote1)
     = (JSON StatusOK (JVote (vote1\<lparr>VoteID := 1\<rparr>)), [(1, vote1\<lparr>VoteID := 1\<rparr>)],
        [(1, voter1\<lparr>VoteHistory := [\<lparr>PollID = 1, VoteDate = 8\<rparr>]\<rparr>)])
   \<and> voter_exists [(1, voter1)] vote1 \<and> poll_exists [(1, poll1)] vote1
   \<and> option_exists [(1, poll1)] vote1
   \<and> \<not> voter_exists [(1, voter1)] strangerVote
   \<and> VotesAPI_AddVote allUp [] [(1, voter1)] [(1, poll1)] ''1'' (Some strangerVote)
       = (JSON StatusNotFound (JError ''Could not find voter in cache''), [], [(1, voter1)])"
proof -
  have stored: "VotesAPI_AddVote allUp [] [(1, voter1)] [(1, poll1)] ''1'' (Some vote1)
     = (JSON StatusOK (JVote (vote1\<lparr>VoteID := 1\<rparr>)), [(1, vote1\<lparr>VoteID := 1\<rparr>)],
        [(1, voter1\<lparr>VoteHistory := [\<lparr>PollID = 1, VoteDate = 8\<rparr>]\<rparr>)])"
    by (simp add: votes_eval)
  obtain resp vc' voterSvc' where refused:
    "VotesAPI_AddVote allUp [] [(1, voter1)] [(1, poll1)] ''1'' (Some strangerVote)
       = (resp, vc', voterSvc')"
    by (metis prod_cases3)
  have stranger: "\<not> voter_exists [(1, voter1)] strangerVote"
    by (simp add: voter_exists_def strangerVote_def voter1_def)
  have "vc' = []" and "voterSvc' = [(1, voter1)]"
    using AddVote_checks_references [OF refused] stranger by simp_all
  moreover have "resp = JSON StatusNotFound (JError ''Could not find voter in cache'')"
    using refused by (simp add: votes_eval)
  ultimately show ?thesis
    using AddVote_checks_references [OF stored] stored refused stranger by simp
qed


subsection \<open>The history call of AddVote\<close>



lemma update_new_differs: "map_of al k = None \<Longrightarrow> AList.update k v al \<noteq> al"
  by (metis update_conv' fun_upd_same option.distinct(1))




subsection \<open>DeleteVote\<close>





subsection \<open>The request counters\<close>

lemma route_counters:
  "totalCalls (va (snd (route e req w))) = totalCalls (va w)"
  "errorCalls (va (snd (route e req w))) = errorCalls (va w)"
  "totalRequestTime (va (snd (route e req w))) = totalRequestTime (va w)"
  "bootTime (va (snd (route e req w))) = bootTime (va w)"
  by (cases req; simp split: prod.splits)+

lemma serve_counters:
  "totalCalls (va (snd (serve e req w))) = totalCalls (va w) + 1"
  "errorCalls (va (snd (serve e req w))) =
     errorCalls (va w) + (if 400 \<le> status (fst (serve e req w)) then 1 else 0)"
  "totalRequestTime (va (snd (serve e req w))) = totalRequestTime (va w) + elapsed e"
  "bootTime (va (snd (serve e req w))) = bootTime (va w)"
  using route_counters [of e req "w\<lparr>va := (va w)\<lparr>totalCalls := totalCalls (va w) + 1\<rparr>\<rparr>"]
  by (simp_all add: serve_def HealthMiddleware_def Let_def case_prod_beta)

lemma serveAll_counters:
  "serveAll w reqs = (resps, w') \<Longrightarrow>
     length resps = length reqs
     \<and> totalCalls (va w') = totalCalls (va w) + of_nat (length reqs)
     \<and> errorCalls (va w') = errorCalls (va w) + of_nat (errorCount resps)
     \<and> totalRequestTime (va w') = totalRequestTime (va w) + elapsedSum reqs
     \<and> bootTime (va w') = bootTime (va w)"
proof (induction reqs arbitrary: w resps w')
  case Nil
  then show ?case by (simp add: errorCount_def elapsedSum_def)
next
  case (Cons a reqs)
  obtain e req where a: "a = (e, req)" by (cases a)
  obtain resp w1 where first: "serve e req w = (resp, w1)" by (cases "serve e req w")
  obtain rest w2 where others: "serveAll w1 reqs = (rest, w2)" by (cases "serveAll w1 reqs")
  from Cons.prems a first others have res: "resps = resp # rest" "w' = w2" by simp_all
  have c: "totalCalls (va w1) = totalCalls (va w) + 1"
    "errorCalls (va w1) = errorCalls (va w) + (if 400 \<le> status resp then 1 else 0)"
    "totalRequestTime (va w1) = totalRequestTime (va w) + elapsed e"
    "bootTime (va w1) = bootTime (va w)"
    using serve_counters [of e req w] first by simp_all
  from Cons.IH [OF others] c res a show ?case
    by (simp add: errorCount_def elapsedSum_def)
qed

text \<open>The health handler runs after the middleware has counted its own request.\<close>

lemma serve_HealthCheck:
  "fst (serve e HealthCheck w) =
     VotesAPI_HealthCheck e ((va w)\<lparr>totalCalls := totalCalls (va w) + 1\<rparr>)"
  by (simp add: serve_def HealthMiddleware_def Let_def)

lemma duration_div_0_1: "duration_div 0 1 = 0"
  by (simp add: duration_div_def signed_divide_int_def)

text \<open>
  Claim C8, as stated, fails by one: the health request passes the middleware like
  every other request and is counted before its handler runs. Just after boot, with no
  request handled, the report shows one call; after one request that took 3 ns it shows
  two calls and an average of 1 ns, where the claim has one call and 3 ns.
\<close>

theorem HealthCheck_counts_itself:
  "serveAll bootWorld [] = ([], bootWorld)
   \<and> fst (serve allUp HealthCheck bootWorld)
       = JSON StatusOK
           (JHealth \<lparr>healthStatus = ''ok'', uptime = 7, totalAPICalls = 1, totalAPICallsError = 0,
                     healthBootTime = 0, healthTotalRequestTime = 0, averageRequestTime = 0\<rparr>)
   \<and> fst (serveAll bootWorld [(allUp, WelcomeToVotesAPI)]) = [JSON StatusOK (JMessage ''Welcome to votes API.'')]
   \<and> fst (serve allUp HealthCheck (snd (serveAll bootWorld [(allUp, WelcomeToVotesAPI)])))
       = JSON StatusOK
           (JHealth \<lparr>healthStatus = ''ok'', uptime = 7, totalAPICalls = 2, totalAPICallsError = 0,
                     healthBootTime = 0, healthTotalRequestTime = 3, averageRequestTime = 1\<rparr>)"
  by (simp add: serve_def HealthMiddleware_def VotesAPI_HealthCheck_def
      VotesAPI_WelcomeToVotesAPI_def bootWorld_def NewVotesHandler_def allUp_def JSON_def Let_def
      duration_div_def signed_divide_int_def)

text \<open>
  Claim C8, amended. After a run of \<open>N\<close> requests from boot, of which \<open>E\<close> were answered
  with a status of 400 or more, the counters hold \<open>N\<close> and \<open>E\<close> (as 64-bit values) and
  the sum of the measured durations. A health request that follows is served with the
  call counter already incremented and the other two untouched: it reports \<open>N + 1\<close>
  calls, \<open>E\<close> errors, the sum of the \<open>N\<close> durations, and as average that sum divided by
  \<open>N + 1\<close>, which is zero when \<open>N = 0\<close>.
\<close>

theorem HealthCheck_after_requests:
  assumes "serveAll \<lparr>va = NewVotesHandler votesCache boot, voterService = voterSvc,
                     pollService = pollSvc\<rparr> reqs = (resps, w)"
  shows "length resps = length reqs
         \<and> totalCalls (va w) = of_nat (length reqs)
         \<and> errorCalls (va w) = of_nat (errorCount resps)
         \<and> totalRequestTime (va w) = elapsedSum reqs
         \<and> (\<exists>h. fst (serve e HealthCheck w) = JSON StatusOK (JHealth h)
                \<and> totalAPICalls h = of_nat (length reqs) + 1
                \<and> totalAPICallsError h = of_nat (errorCount resps)
                \<and> healthTotalRequestTime h = elapsedSum reqs
                \<and> averageRequestTime h =
                    (if of_nat (length reqs) + 1 = (0 :: 64 word) then 0
                     else duration_div (elapsedSum reqs) (of_nat (length reqs) + 1))
                \<and> (length reqs + 1 < 2 ^ 64 \<longrightarrow>
                      unat (totalAPICalls h) = length reqs + 1
                      \<and> averageRequestTime h
                          = duration_div (elapsedSum reqs) (of_nat (length reqs) + 1))
                \<and> (reqs = [] \<longrightarrow> averageRequestTime h = 0))"
proof -
  have c: "length resps = length reqs" "totalCalls (va w) = of_nat (length reqs)"
    "errorCalls (va w) = of_nat (errorCount resps)" "totalRequestTime (va w) = elapsedSum reqs"
    using serveAll_counters [OF assms] by (simp_all add: NewVotesHandler_def)
  define calls :: "64 word" where "calls = of_nat (length reqs) + 1"
  define h where "h = \<lparr>healthStatus = ''ok'', uptime = clock e - bootTime (va w),
      totalAPICalls = calls, totalAPICallsError = of_nat (errorCount resps),
      healthBootTime = bootTime (va w), healthTotalRequestTime = elapsedSum reqs,
      averageRequestTime = (if calls = 0 then 0 else duration_div (elapsedSum reqs) calls)\<rparr>"
  have report: "fst (serve e HealthCheck w) = JSON StatusOK (JHealth h)"
    by (simp add: serve_HealthCheck VotesAPI_HealthCheck_def Let_def c h_def calls_def word_gt_0)
  have small: "unat calls = length reqs + 1" if "length reqs + 1 < 2 ^ 64"
  proof -
    have "calls = of_nat (length reqs + 1)" by (simp add: calls_def)
    then have "unat calls = (length reqs + 1) mod 2 ^ 64"
      by (simp only: unat_of_nat) simp
    with that show ?thesis by simp
  qed
  have nonzero: "calls \<noteq> 0" if "length reqs + 1 < 2 ^ 64"
  proof
    assume "calls = 0"
    then have "unat calls = 0" by simp
    with small [OF that] show False by simp
  qed
  have empty: "averageRequestTime h = 0" if "reqs = []"
    using that by (simp add: h_def calls_def elapsedSum_def duration_div_0_1)
  have "totalAPICalls h = of_nat (length reqs) + 1
      \<and> totalAPICallsError h = of_nat (errorCount resps)
      \<and> healthTotalRequestTime h = elapsedSum reqs
      \<and> averageRequestTime h =
          (if of_nat (length reqs) + 1 = (0 :: 64 word) then 0
           else duration_div (elapsedSum reqs) (of_nat (length reqs) + 1))"
    by (simp add: h_def calls_def)
  moreover have "length reqs + 1 < 2 ^ 64 \<longrightarrow>
      unat (totalAPICalls h) = length reqs + 1
      \<and> averageRequestTime h = duration_div (elapsedSum reqs) (of_nat (length reqs) + 1)"
    using small nonzero by (simp add: h_def) (simp add: calls_def)
  ultimately show ?thesis
    using c report empty by blast
qed

theorem HealthCheck_after_requests_witness:
  "serveAll bootWorld [(allUp, WelcomeToVotesAPI), (allUp, GetVote ''9'')]
     = ([JSON StatusOK (JMessage ''Welcome to votes API.''), AbortWithStatus StatusNotFound],
        bootWorld\<lparr>va := (va bootWorld)\<lparr>totalCalls := 2, errorCalls := 1, totalRequestTime := 6\<rparr>\<rparr>)
   \<and> errorCount [JSON StatusOK (JMessage ''Welcome to votes API.''), AbortWithStatus StatusNotFound] = 1
   \<and> fst (serve allUp HealthCheck
             (bootWorld\<lparr>va := (va bootWorld)\<lparr>totalCalls := 2, errorCalls := 1, totalRequestTime := 6\<rparr>\<rparr>))
       = JSON StatusOK
           (JHealth \<lparr>healthStatus = ''ok'', uptime = 7, totalAPICalls = 3, totalAPICallsError = 1,
                     healthBootTime = 0, healthTotalRequestTime = 6, averageRequestTime = 2\<rparr>)"
proof -
  have run: "serveAll \<lparr>va = NewVotesHandler [] 0, voterService = [], pollService = []\<rparr>
       [(allUp, WelcomeToVotesAPI), (allUp, GetVote ''9'')]
     = ([JSON StatusOK (JMessage ''Welcome to votes API.''), AbortWithStatus StatusNotFound],
        bootWorld\<lparr>va := (va bootWorld)\<lparr>totalCalls := 2, errorCalls := 1, totalRequestTime := 6\<rparr>\<rparr>)"
    by (simp add: serve_def HealthMiddleware_def VotesAPI_WelcomeToVotesAPI_def
        VotesAPI_GetVote_def VotesCache_GetVote_def JSONGet_def ParseUint_def isDigit_def
        bootWorld_def NewVotesHandler_def allUp_def JSON_def AbortWithStatus_def Let_def)
  have health: "fst (serve allUp HealthCheck
             (bootWorld\<lparr>va := (va bootWorld)\<lparr>totalCalls := 2, errorCalls := 1, totalRequestTime := 6\<rparr>\<rparr>))
       = JSON StatusOK
           (JHealth \<lparr>healthStatus = ''ok'', uptime = 7, totalAPICalls = 3, totalAPICallsError = 1,
                     healthBootTime = 0, healthTotalRequestTime = 6, averageRequestTime = 2\<rparr>)"
    by (simp add: serve_def HealthMiddleware_def VotesAPI_HealthCheck_def bootWorld_def
        NewVotesHandler_def allUp_def JSON_def Let_def duration_div_def signed_divide_int_def)
  show ?thesis
    using run health HealthCheck_after_requests [OF run, of allUp]
    by (simp add: bootWorld_def errorCount_def JSON_def AbortWithStatus_def)
qed

end
